theory Spec2Isabelle
  imports Main "HOL-Library.Word" "HOL-Library.Sublist"
begin

section \<open>JavaScript strings\<close>

text \<open>
  A JavaScript string is a sequence of 16-bit code units. \<open>str\<close> writes a literal of the
  source (all of them are ASCII) as such a sequence.
\<close>

type_synonym jsstring = "16 word list"

definition str :: "string \<Rightarrow> jsstring" where
  "str s = map of_char s"

text \<open>
  \<open>String.prototype.trim\<close> removes, from both ends, the code units that ECMAScript calls
  WhiteSpace (TAB, VT, FF, SP, NBSP, ZWNBSP and the Unicode space separators) or
  LineTerminator (LF, CR, LS, PS). All of them are single code units.
\<close>

definition isWhiteSpace :: "16 word \<Rightarrow> bool" where
  "isWhiteSpace c = (c \<in> set [0x09, 0x0A, 0x0B, 0x0C, 0x0D, 0x20, 0xA0, 0x1680,
     0x2000, 0x2001, 0x2002, 0x2003, 0x2004, 0x2005, 0x2006, 0x2007, 0x2008, 0x2009, 0x200A,
     0x2028, 0x2029, 0x202F, 0x205F, 0x3000, 0xFEFF])"

definition trim :: "jsstring \<Rightarrow> jsstring" where
  "trim s = rev (dropWhile isWhiteSpace (rev (dropWhile isWhiteSpace s)))"

definition startsWith :: "jsstring \<Rightarrow> jsstring \<Rightarrow> bool" where
  "startsWith s p = prefix p s"

text \<open>
  \<open>FormData.append\<close> takes its value as a \<open>USVString\<close>: on the way in, every surrogate
  code unit that is not part of a pair (a high surrogate followed by a low one) is
  replaced by U+FFFD. \<open>isWellFormed\<close> is \<open>String.prototype.isWellFormed\<close>: no such code
  unit occurs.
\<close>

definition isHighSurrogate :: "16 word \<Rightarrow> bool" where
  "isHighSurrogate c = (0xD800 \<le> c \<and> c \<le> 0xDBFF)"

definition isLowSurrogate :: "16 word \<Rightarrow> bool" where
  "isLowSurrogate c = (0xDC00 \<le> c \<and> c \<le> 0xDFFF)"

fun toUSVString :: "jsstring \<Rightarrow> jsstring" where
  "toUSVString [] = []"
| "toUSVString [c] = (if isHighSurrogate c \<or> isLowSurrogate c then [0xFFFD] else [c])"
| "toUSVString (c # d # cs) =
     (if isHighSurrogate c \<and> isLowSurrogate d then c # d # toUSVString cs
      else if isHighSurrogate c \<or> isLowSurrogate c then 0xFFFD # toUSVString (d # cs)
      else c # toUSVString (d # cs))"

fun isWellFormed :: "jsstring \<Rightarrow> bool" where
  "isWellFormed [] = True"
| "isWellFormed [c] = (\<not> (isHighSurrogate c \<or> isLowSurrogate c))"
| "isWellFormed (c # d # cs) =
     (if isHighSurrogate c \<and> isLowSurrogate d then isWellFormed cs
      else \<not> (isHighSurrogate c \<or> isLowSurrogate c) \<and> isWellFormed (d # cs))"

text \<open>
  A value that is a string, \<open>null\<close> or \<open>undefined\<close> is a \<open>jsstring option\<close>. It is falsy
  when it is absent or the empty string; \<open>a || b\<close> is \<open>b\<close> exactly then.
\<close>

definition falsy :: "jsstring option \<Rightarrow> bool" where
  "falsy v = (case v of None \<Rightarrow> True | Some s \<Rightarrow> s = [])"

definition or_else :: "jsstring option \<Rightarrow> jsstring \<Rightarrow> jsstring" where
  "or_else v d = (case v of None \<Rightarrow> d | Some s \<Rightarrow> if s = [] then d else s)"

section \<open>Data of the component\<close>

text \<open>
  An entry of the conversation log: \<open>{ sender, text, image }\<close>. The field \<open>text\<close> of the
  source is \<open>text_field\<close> here. An absent property and \<open>null\<close> are both \<open>None\<close>.
\<close>

record message =
  sender :: jsstring
  text_field :: "jsstring option"
  image :: "jsstring option"

text \<open>A \<open>File\<close> picked in the file dialog; the code reads only its \<open>type\<close>.\<close>

record js_file =
  name :: jsstring
  file_type :: jsstring

datatype app_status = Loading | Ready | Error

text \<open>
  The three values of \<open>appStatus\<close>. An exception value is an \<open>Error\<close> object of
  JavaScript, here \<open>JsError\<close>, of which the code reads only \<open>message\<close>.
\<close>

datatype js_error = JsError (message: jsstring)

text \<open>
  The calls the component makes to the world outside React, other than \<open>fetch\<close>: they are
  appended to the field \<open>effects\<close> in the order they happen.
\<close>

datatype effect =
    Alert jsstring
  | ConsoleError jsstring jsstring
  | StorageSet jsstring jsstring
  | RecognitionStart
  | RecognitionStop
  | ClearFileInput

text \<open>The eight \<open>useState\<close> cells of \<open>App\<close>, and the trace of effects.\<close>

record app_state =
  messages :: "message list"
  input :: jsstring
  isLoading :: bool
  isListening :: bool
  selectedFile :: "js_file option"
  filePreview :: "jsstring option"
  sessionId :: "jsstring option"
  appStatus :: app_status
  effects :: "effect list"

definition init_state :: app_state where
  "init_state = \<lparr> messages = [], input = [], isLoading = False, isListening = False,
     selectedFile = None, filePreview = None, sessionId = None, appStatus = Loading,
     effects = [] \<rparr>"

section \<open>What the backend answers\<close>

text \<open>
  A settled promise is rejected with an error or fulfilled with a value. \<open>fetch\<close> settles to
  a response, of which the code reads \<open>ok\<close> and the promise \<open>json()\<close>. The parsed body is
  \<open>null\<close> (reading a property of it throws the \<open>TypeError\<close> it carries here, whose message
  is the engine's), an array of messages, or an object of which only the string
  properties \<open>reply\<close> and \<open>error\<close> are read.
\<close>

datatype 'a promise = Rejected js_error | Fulfilled 'a

datatype json = JNull js_error | JArray "message list" | JObject "jsstring option" "jsstring option"

record response =
  ok :: bool
  json :: "json promise"

fun get_reply :: "json \<Rightarrow> js_error + jsstring option" where
  "get_reply (JNull e) = Inl e"
| "get_reply (JArray ms) = Inr None"
| "get_reply (JObject reply err) = Inr reply"

fun get_error :: "json \<Rightarrow> js_error + jsstring option" where
  "get_error (JNull e) = Inl e"
| "get_error (JArray ms) = Inr None"
| "get_error (JObject reply err) = Inr err"

text \<open>
  The multipart form that \<open>handleSend\<close> posts to \<open>/chat\<close>: the fields as the form holds
  them, that is, after \<open>FormData.append\<close> has converted the strings.
\<close>

record chat_request =
  form_sessionId :: jsstring
  form_message :: jsstring
  form_file :: "js_file option"

section \<open>Session bootstrap and history load (the first \<open>useEffect\<close>)\<close>

text \<open>
  \<open>mount stored now rnd\<close> is the synchronous part of the effect: \<open>stored\<close> is what
  \<open>localStorage.getItem('chatSessionId')\<close> returns, \<open>now\<close> and \<open>rnd\<close> are the texts of
  \<open>Date.now()\<close> and of the random suffix. It returns the state and the session id that
  \<open>fetchHistory\<close> is called with, which then waits for \<open>GET /history\<close>. The effect has
  an empty dependency list: it runs once per activation.
\<close>

definition mount :: "jsstring option \<Rightarrow> jsstring \<Rightarrow> jsstring \<Rightarrow> app_state \<Rightarrow> app_state \<times> jsstring" where
  "mount stored now rnd st =
    (let generated = str ''session_'' @ now @ str ''_'' @ rnd;
         currentSessionId = or_else stored generated;
         st1 = (if falsy stored
                then st\<lparr> effects := effects st @ [StorageSet (str ''chatSessionId'') generated] \<rparr>
                else st)
     in (st1\<lparr> sessionId := Some currentSessionId \<rparr>, currentSessionId))"

definition greeting :: message where
  "greeting = \<lparr> sender = str ''bot'',
     text_field = Some (str ''Hello! I am ThatBot. How can I help you?''), image = None \<rparr>"

text \<open>
  The \<open>try\<close> block of \<open>fetchHistory\<close>, from the settled \<open>fetch\<close>: the log to set, or the
  error thrown. \<open>history.length > 0\<close> is false for an object, which has no \<open>length\<close>.
\<close>

definition fetchHistory_try :: "response promise \<Rightarrow> js_error + message list" where
  "fetchHistory_try p =
    (case p of
       Rejected e \<Rightarrow> Inl e
     | Fulfilled response \<Rightarrow>
         (case json response of
            Rejected e \<Rightarrow> Inl e
          | Fulfilled body \<Rightarrow>
              if ok response then
                (case body of
                   JNull e \<Rightarrow> Inl e
                 | JArray history \<Rightarrow> if length history > 0 then Inr history else Inr [greeting]
                 | JObject _ _ \<Rightarrow> Inr [greeting])
              else
                (case get_error body of
                   Inl e \<Rightarrow> Inl e
                 | Inr v \<Rightarrow> Inl (JsError (or_else v (str ''Failed to fetch history''))))))"

definition fetchHistory_resume :: "response promise \<Rightarrow> app_state \<Rightarrow> app_state" where
  "fetchHistory_resume p st =
    (case fetchHistory_try p of
       Inr log \<Rightarrow> st\<lparr> messages := log, appStatus := Ready \<rparr>
     | Inl error \<Rightarrow>
         st\<lparr> effects := effects st @ [ConsoleError (str ''Failed to fetch history:'') (message error)],
             appStatus := Error \<rparr>)"

section \<open>The handlers\<close>

text \<open>
  \<open>recognition\<close> is a module constant: \<open>null\<close> when the browser has no speech recognition.
  The calls of \<open>start\<close> and \<open>stop\<close> go to the trace; the recogniser's own state is not
  followed.
\<close>

definition handleVoiceListen :: "bool \<Rightarrow> app_state \<Rightarrow> app_state" where
  "handleVoiceListen recognition st =
    (if \<not> recognition
     then st\<lparr> effects := effects st @
            [Alert (str ''Voice recognition is not supported in this browser.'')] \<rparr>
     else
       (let st1 = (if isListening st
                   then st\<lparr> effects := effects st @ [RecognitionStop] \<rparr>
                   else st\<lparr> input := [], effects := effects st @ [RecognitionStart] \<rparr>)
        in st1\<lparr> isListening := \<not> isListening st \<rparr>))"

text \<open>
  \<open>files\<close> is \<open>event.target.files\<close>, and \<open>url\<close> what \<open>URL.createObjectURL\<close> returns for the
  file.
\<close>

definition handleFileChange :: "js_file list \<Rightarrow> jsstring \<Rightarrow> app_state \<Rightarrow> app_state" where
  "handleFileChange files url st =
    (case files of
       [] \<Rightarrow> st
     | file # _ \<Rightarrow>
         if startsWith (file_type file) (str ''image/'')
         then st\<lparr> selectedFile := Some file, filePreview := Some url \<rparr>
         else st\<lparr> effects := effects st @ [Alert (str ''Please select an image file.'')] \<rparr>)"

text \<open>
  \<open>fileInputRef.current\<close> is the file input, which only the chat view renders: it is set
  exactly when \<open>appStatus\<close> is \<open>'ready'\<close>.
\<close>

definition removeFile :: "app_state \<Rightarrow> app_state" where
  "removeFile st =
    st\<lparr> selectedFile := None, filePreview := None,
        effects := effects st @ (if appStatus st = Ready then [ClearFileInput] else []) \<rparr>"

text \<open>
  \<open>handleSend\<close> up to its first \<open>await\<close>: the state when it suspends, and the request it has
  issued; \<open>None\<close> when the guard returned. Past the guard \<open>sessionId\<close> is a string, so
  the \<open>None\<close> case below it is never taken.
\<close>

definition handleSend_start :: "app_state \<Rightarrow> app_state \<times> chat_request option" where
  "handleSend_start st =
    (let textInput = trim (input st) in
     if (textInput = [] \<and> selectedFile st = None) \<or> falsy (sessionId st) then (st, None)
     else
       (case sessionId st of
          None \<Rightarrow> (st, None)
        | Some sid \<Rightarrow>
            (let st1 = st\<lparr> isLoading := True \<rparr>;
                 userMessage = \<lparr> sender = str ''user'', text_field = Some textInput,
                                 image = filePreview st \<rparr>;
                 st2 = st1\<lparr> messages := messages st1 @ [userMessage] \<rparr>;
                 formData = \<lparr> form_sessionId = toUSVString sid,
                              form_message = toUSVString textInput,
                              form_file = selectedFile st \<rparr>;
                 st3 = st2\<lparr> input := [] \<rparr>;
                 st4 = removeFile st3
             in (st4, Some formData))))"

text \<open>The \<open>try\<close> block of \<open>handleSend\<close>, from the settled \<open>fetch\<close>: \<open>botMessage\<close>, or the error thrown.\<close>

definition handleSend_try :: "response promise \<Rightarrow> js_error + message" where
  "handleSend_try p =
    (case p of
       Rejected e \<Rightarrow> Inl e
     | Fulfilled response \<Rightarrow>
         (case json response of
            Rejected e \<Rightarrow> Inl e
          | Fulfilled data \<Rightarrow>
              if \<not> ok response then
                (case get_error data of
                   Inl e \<Rightarrow> Inl e
                 | Inr v \<Rightarrow> Inl (JsError (or_else v (str ''Network response was not ok''))))
              else
                (case get_reply data of
                   Inl e \<Rightarrow> Inl e
                 | Inr reply \<Rightarrow> Inr \<lparr> sender = str ''bot'', text_field = reply, image = None \<rparr>)))"

text \<open>
  \<open>handleSend\<close> from the settled \<open>fetch\<close> to its end: the state, and the exception that
  leaves the function, if one does. Both updates of the log are functional updates: they
  append to the log as it is when the response arrives.
\<close>

definition handleSend_resume :: "response promise \<Rightarrow> app_state \<Rightarrow> app_state \<times> js_error option" where
  "handleSend_resume p st =
    (let (st1, thrown) =
       (case handleSend_try p of
          Inr botMessage \<Rightarrow> (st\<lparr> messages := messages st @ [botMessage] \<rparr>, None)
        | Inl error \<Rightarrow>
            (let st0 = st\<lparr> effects := effects st @ [ConsoleError (str ''Error fetching data:'') (message error)] \<rparr>;
                 errorMessage = \<lparr> sender = str ''bot'',
                   text_field = Some (str ''Sorry, something went wrong: '' @ message error),
                   image = None \<rparr>
             in (st0\<lparr> messages := messages st0 @ [errorMessage] \<rparr>, None)))
     in (st1\<lparr> isLoading := False \<rparr>, thrown))"

text \<open>A whole call of \<open>handleSend\<close> during which nothing else happens.\<close>

definition handleSend :: "response promise \<Rightarrow> app_state \<Rightarrow> app_state \<times> js_error option" where
  "handleSend p st =
    (case handleSend_start st of
       (st', None) \<Rightarrow> (st', None)
     | (st', Some formData) \<Rightarrow> handleSend_resume p st')"

definition handleKeyPress :: "jsstring \<Rightarrow> bool \<Rightarrow> app_state \<Rightarrow> app_state \<times> chat_request option" where
  "handleKeyPress key shiftKey st =
    (if key = str ''Enter'' \<and> \<not> shiftKey then handleSend_start st else (st, None))"

section \<open>The component as an event-driven system\<close>

text \<open>
  What the user and the browser can do to the mounted component. The speech recogniser's
  callbacks are those registered by the second \<open>useEffect\<close>.
\<close>

datatype ui_event =
    InputChange jsstring
  | KeyDown jsstring bool
  | ClickSend
  | FileChange "js_file list" jsstring
  | ClickRemoveFile
  | ClickMic
  | RecognitionResult jsstring
  | RecognitionError jsstring
  | RecognitionEnd

text \<open>
  What the rendered view lets happen (the \<open>return\<close> statements of \<open>App\<close>): the loading
  and error views have no controls; in the chat view the textarea, the microphone button
  and the send button are disabled while \<open>isLoading\<close>, the send button also when there is
  nothing to send; the remove button exists while there is a preview; the microphone
  button and the recogniser's callbacks exist only if \<open>recognition\<close> does.
\<close>

fun permitted :: "bool \<Rightarrow> app_state \<Rightarrow> ui_event \<Rightarrow> bool" where
  "permitted recognition st (InputChange v) = (appStatus st = Ready \<and> \<not> isLoading st)"
| "permitted recognition st (KeyDown key shiftKey) = (appStatus st = Ready \<and> \<not> isLoading st)"
| "permitted recognition st ClickSend =
     (appStatus st = Ready \<and> \<not> (isLoading st \<or> (trim (input st) = [] \<and> selectedFile st = None)))"
| "permitted recognition st (FileChange files url) = (appStatus st = Ready)"
| "permitted recognition st ClickRemoveFile = (appStatus st = Ready \<and> \<not> falsy (filePreview st))"
| "permitted recognition st ClickMic = (appStatus st = Ready \<and> recognition \<and> \<not> isLoading st)"
| "permitted recognition st (RecognitionResult transcript) = recognition"
| "permitted recognition st (RecognitionError code) = recognition"
| "permitted recognition st RecognitionEnd = recognition"

text \<open>The handler each event runs, with the request it issues if it starts a send.\<close>

fun handler :: "bool \<Rightarrow> ui_event \<Rightarrow> app_state \<Rightarrow> app_state \<times> chat_request option" where
  "handler recognition (InputChange v) st = (st\<lparr> input := v \<rparr>, None)"
| "handler recognition (KeyDown key shiftKey) st = handleKeyPress key shiftKey st"
| "handler recognition ClickSend st = handleSend_start st"
| "handler recognition (FileChange files url) st = (handleFileChange files url st, None)"
| "handler recognition ClickRemoveFile st = (removeFile st, None)"
| "handler recognition ClickMic st = (handleVoiceListen recognition st, None)"
| "handler recognition (RecognitionResult transcript) st = (st\<lparr> input := transcript \<rparr>, None)"
| "handler recognition (RecognitionError code) st =
     (st\<lparr> effects := effects st @ [ConsoleError (str ''Speech recognition error'') code] \<rparr>, None)"
| "handler recognition RecognitionEnd st = (st\<lparr> isListening := False \<rparr>, None)"

text \<open>
  The system is the component's state together with the requests that have been issued
  and not yet answered: each of them is a suspended call of \<open>fetchHistory\<close> or of
  \<open>handleSend\<close>, which resumes when its response arrives.
\<close>

record system =
  app :: app_state
  historyInFlight :: "jsstring option"
  chatInFlight :: "chat_request list"

datatype event =
    UI ui_event
  | HistoryResponse "response promise"
  | ChatResponse "response promise"

definition boot :: "jsstring option \<Rightarrow> jsstring \<Rightarrow> jsstring \<Rightarrow> system" where
  "boot stored now rnd =
    (case mount stored now rnd init_state of
       (st, currentSessionId) \<Rightarrow> \<lparr> app = st, historyInFlight = Some currentSessionId, chatInFlight = [] \<rparr>)"

fun enabled :: "bool \<Rightarrow> system \<Rightarrow> event \<Rightarrow> bool" where
  "enabled recognition s (UI e) = permitted recognition (app s) e"
| "enabled recognition s (HistoryResponse p) = (historyInFlight s \<noteq> None)"
| "enabled recognition s (ChatResponse p) = (chatInFlight s \<noteq> [])"

fun fire :: "bool \<Rightarrow> event \<Rightarrow> system \<Rightarrow> system" where
  "fire recognition (UI e) s =
     (case handler recognition e (app s) of
        (st, None) \<Rightarrow> s\<lparr> app := st \<rparr>
      | (st, Some formData) \<Rightarrow> s\<lparr> app := st, chatInFlight := chatInFlight s @ [formData] \<rparr>)"
| "fire recognition (HistoryResponse p) s =
     s\<lparr> app := fetchHistory_resume p (app s), historyInFlight := None \<rparr>"
| "fire recognition (ChatResponse p) s =
     s\<lparr> app := fst (handleSend_resume p (app s)), chatInFlight := tl (chatInFlight s) \<rparr>"

text \<open>Running a sequence of events; \<open>None\<close> if one of them cannot happen where it stands.\<close>

fun exec :: "bool \<Rightarrow> event list \<Rightarrow> system \<Rightarrow> system option" where
  "exec recognition [] s = Some s"
| "exec recognition (e # es) s =
     (if enabled recognition s e then exec recognition es (fire recognition e s) else None)"

text \<open>
  What holds of every state the system reaches: outside the chat view the log is empty
  and nothing is being sent; the history request is in flight only while loading; a chat
  request is in flight exactly while \<open>isLoading\<close>, and then only one; the session id is
  a non-empty string.
\<close>

definition invar :: "system \<Rightarrow> bool" where
  "invar s =
    ((appStatus (app s) \<noteq> Ready \<longrightarrow> messages (app s) = [] \<and> \<not> isLoading (app s))
     \<and> (appStatus (app s) \<noteq> Loading \<longrightarrow> historyInFlight s = None)
     \<and> length (chatInFlight s) = (if isLoading (app s) then 1 else 0)
     \<and> \<not> falsy (sessionId (app s)))"

section \<open>Concrete inputs\<close>

text \<open>
  A chat view with one greeting in the log, the session \<open>session_1_a\<close>, and
  \<open>" hi "\<close> typed into the textarea; and the answers of the backend: an empty history, a
  reply, a refusal with an error text, a refusal with an empty object, a refusal whose
  body is not JSON, and a request that never arrived.
\<close>

definition example_state :: app_state where
  "example_state = \<lparr> messages = [greeting], input = str '' hi '', isLoading = False,
     isListening = False, selectedFile = None, filePreview = None,
     sessionId = Some (str ''session_1_a''), appStatus = Ready, effects = [] \<rparr>"

definition example_history_empty :: "response promise" where
  "example_history_empty = Fulfilled \<lparr> ok = True, json = Fulfilled (JArray []) \<rparr>"

definition example_reply :: "response promise" where
  "example_reply = Fulfilled \<lparr> ok = True, json = Fulfilled (JObject (Some (str ''hello'')) None) \<rparr>"

definition example_refusal :: "response promise" where
  "example_refusal = Fulfilled \<lparr> ok = False, json = Fulfilled (JObject None (Some (str ''No message''))) \<rparr>"

definition example_refusal_bare :: "response promise" where
  "example_refusal_bare = Fulfilled \<lparr> ok = False, json = Fulfilled (JObject None None) \<rparr>"

definition example_unreadable :: "response promise" where
  "example_unreadable = Fulfilled \<lparr> ok = False, json = Rejected (JsError (str ''Unexpected token'')) \<rparr>"

definition example_network_error :: "response promise" where
  "example_network_error = Rejected (JsError (str ''Failed to fetch''))"

definition example_png :: js_file where
  "example_png = \<lparr> name = str ''cat.png'', file_type = str ''image/png'' \<rparr>"

definition example_pdf :: js_file where
  "example_pdf = \<lparr> name = str ''notes.pdf'', file_type = str ''application/pdf'' \<rparr>"

text \<open>
  A run of the system with speech recognition: a fresh installation boots, the history
  arrives empty, the user types \<open>hello\<close> and clicks send, and the reply arrives. And a run
  where the history request fails.
\<close>

definition example_boot :: system where
  "example_boot = boot None (str ''1'') (str ''a'')"

definition example_ready :: system where
  "example_ready = fire True (HistoryResponse example_history_empty) example_boot"

definition example_typed :: system where
  "example_typed = fire True (UI (InputChange (str ''hello''))) example_ready"

definition example_sending :: system where
  "example_sending = fire True (UI ClickSend) example_typed"

definition example_answered :: system where
  "example_answered = fire True (ChatResponse example_reply) example_sending"

definition example_failed :: system where
  "example_failed = fire True (HistoryResponse example_network_error) example_boot"

text \<open>The definitions to unfold when a concrete run is evaluated.\<close>

lemmas example_defs = example_state_def example_history_empty_def example_reply_def
  example_refusal_def example_refusal_bare_def example_unreadable_def example_network_error_def example_png_def example_pdf_def
  example_boot_def example_ready_def example_typed_def example_sending_def
  example_answered_def example_failed_def

lemmas eval_defs = str_def trim_def isWhiteSpace_def isHighSurrogate_def isLowSurrogate_def falsy_def or_else_def startsWith_def
  greeting_def init_state_def mount_def boot_def fetchHistory_try_def fetchHistory_resume_def
  handleVoiceListen_def handleFileChange_def removeFile_def handleSend_start_def
  handleSend_try_def handleSend_resume_def handleSend_def handleKeyPress_def Let_def

section \<open>Properties of the handlers\<close>

lemma trim_all_whitespace: "\<forall>c \<in> set s. isWhiteSpace c \<Longrightarrow> trim s = []"
proof -
  assume "\<forall>c \<in> set s. isWhiteSpace c"
  then have "dropWhile isWhiteSpace s = []" by simp
  then show ?thesis unfolding trim_def by (simp del: dropWhile_eq_Nil_conv)
qed

lemma trim_Nil: "trim [] = []"
  by (simp add: trim_def)

text \<open>
  What \<open>trim\<close> returns is the input without a leading and a trailing run of white
  space, and neither of its ends is white space.
\<close>

lemma last_dropWhile: "dropWhile P ys \<noteq> [] \<Longrightarrow> last (dropWhile P ys) = last ys"
  by (induction ys) (auto split: if_splits)

lemma trim_ends:
  assumes "trim s \<noteq> []"
  shows "\<not> isWhiteSpace (hd (trim s)) \<and> \<not> isWhiteSpace (last (trim s))"
proof -
  let ?xs = "dropWhile isWhiteSpace s"
  let ?ys = "dropWhile isWhiteSpace (rev ?xs)"
  from assms have ys: "?ys \<noteq> []" by (simp add: trim_def del: dropWhile_eq_Nil_conv)
  then have xs: "?xs \<noteq> []" by (auto simp del: dropWhile_eq_Nil_conv)
  from ys have "\<not> isWhiteSpace (hd ?ys)" by (rule hd_dropWhile)
  with ys have l: "\<not> isWhiteSpace (last (trim s))" by (simp add: trim_def last_rev del: dropWhile_eq_Nil_conv)
  from ys have "last ?ys = last (rev ?xs)" by (rule last_dropWhile)
  with xs have "last ?ys = hd ?xs" by (simp add: last_rev del: dropWhile_eq_Nil_conv)
  moreover from xs have "\<not> isWhiteSpace (hd ?xs)" by (rule hd_dropWhile)
  ultimately have "\<not> isWhiteSpace (hd (trim s))" using ys
    by (simp add: trim_def hd_rev del: dropWhile_eq_Nil_conv)
  with l show ?thesis by simp
qed

lemma trim_sublist: "\<exists>pre post. s = pre @ trim s @ post
    \<and> (\<forall>c \<in> set pre. isWhiteSpace c) \<and> (\<forall>c \<in> set post. isWhiteSpace c)"
proof -
  let ?pre = "takeWhile isWhiteSpace s"
  let ?xs = "dropWhile isWhiteSpace s"
  let ?post = "rev (takeWhile isWhiteSpace (rev ?xs))"
  have "rev (takeWhile isWhiteSpace (rev ?xs) @ dropWhile isWhiteSpace (rev ?xs)) = ?xs"
    by (simp only: takeWhile_dropWhile_id rev_rev_ident)
  then have "?xs = trim s @ ?post" by (simp only: rev_append trim_def)
  then have "?pre @ ?xs = ?pre @ trim s @ ?post" by simp
  then have 1: "s = ?pre @ trim s @ ?post" by simp
  have 2: "\<forall>c \<in> set ?pre. isWhiteSpace c" by (auto dest: set_takeWhileD)
  have 3: "\<forall>c \<in> set ?post. isWhiteSpace c" by (auto dest: set_takeWhileD)
  from 1 2 3 show ?thesis by blast
qed

text \<open>Well-formed text passes through \<open>FormData.append\<close> unchanged.\<close>

lemma toUSVString_wellFormed: "isWellFormed s \<Longrightarrow> toUSVString s = s"
  by (induction s rule: toUSVString.induct) (auto split: if_splits)

text \<open>The two outcomes of the guard of \<open>handleSend\<close>, and what its continuation does.\<close>

lemma handleSend_start_guard:
  "(trim (input st) = [] \<and> selectedFile st = None) \<or> falsy (sessionId st) \<Longrightarrow>
     handleSend_start st = (st, None)"
  by (simp add: handleSend_start_def)

lemma handleSend_start_accept:
  assumes "trim (input st) \<noteq> [] \<or> selectedFile st \<noteq> None" and "sessionId st = Some sid" and "sid \<noteq> []"
  shows "handleSend_start st =
    (removeFile (st\<lparr> isLoading := True,
        messages := messages st @ [\<lparr> sender = str ''user'', text_field = Some (trim (input st)), image = filePreview st \<rparr>],
        input := [] \<rparr>),
     Some \<lparr> form_sessionId = toUSVString sid, form_message = toUSVString (trim (input st)),
            form_file = selectedFile st \<rparr>)"
  using assms by (auto simp add: handleSend_start_def falsy_def Let_def)

lemma handleSend_start_Some:
  assumes "handleSend_start st = (st', Some q)"
  shows "(trim (input st) \<noteq> [] \<or> selectedFile st \<noteq> None) \<and> (\<exists>sid. sessionId st = Some sid \<and> sid \<noteq> [])"
  using assms by (auto simp add: handleSend_start_def falsy_def Let_def split: if_splits option.splits)

lemma resume_isLoading: "isLoading (fst (handleSend_resume p st)) = False"
  by (simp add: handleSend_resume_def split: sum.splits prod.splits)

lemma resume_thrown: "snd (handleSend_resume p st) = None"
  by (simp add: handleSend_resume_def split: sum.splits prod.splits)

lemma resume_messages:
  "messages (fst (handleSend_resume p st)) = messages st @
     [case handleSend_try p of Inr botMessage \<Rightarrow> botMessage
      | Inl error \<Rightarrow> \<lparr> sender = str ''bot'',
           text_field = Some (str ''Sorry, something went wrong: '' @ message error), image = None \<rparr>]"
  by (simp add: handleSend_resume_def split: sum.splits prod.splits)

text \<open>What any handler can change.\<close>

lemmas handler_defs = handleKeyPress_def handleSend_start_def handleFileChange_def
  removeFile_def handleVoiceListen_def Let_def

lemma handler_appStatus: "appStatus (fst (handler r e st)) = appStatus st"
  by (cases e) (auto simp add: handler_defs split: list.splits option.splits)

lemma handler_sessionId: "sessionId (fst (handler r e st)) = sessionId st"
  by (cases e) (auto simp add: handler_defs split: list.splits option.splits)

lemma handler_None:
  "snd (handler r e st) = None \<Longrightarrow>
     messages (fst (handler r e st)) = messages st \<and> isLoading (fst (handler r e st)) = isLoading st"
  by (cases e) (auto simp add: handler_defs split: list.splits option.splits if_splits)

lemma handler_Some:
  "snd (handler r e st) = Some q \<Longrightarrow>
     isLoading (fst (handler r e st)) \<and>
     messages (fst (handler r e st)) = messages st @
       [\<lparr> sender = str ''user'', text_field = Some (trim (input st)), image = filePreview st \<rparr>] \<and>
     form_message q = toUSVString (trim (input st))"
  by (cases e) (auto simp add: handler_defs split: list.splits option.splits if_splits)

lemma handler_Some_permitted:
  "snd (handler r e st) = Some q \<Longrightarrow> permitted r st e \<Longrightarrow> appStatus st = Ready \<and> \<not> isLoading st"
  by (cases e) (auto simp add: handler_defs split: list.splits option.splits if_splits)

text \<open>The invariant holds after the boot and is kept by every event that can happen.\<close>

lemma invar_boot: "invar (boot stored now rnd)"
  by (auto simp add: invar_def boot_def mount_def init_state_def Let_def falsy_def or_else_def str_def
      split: option.splits)

lemma fetchHistory_resume_fields:
  "isLoading (fetchHistory_resume p st) = isLoading st"
  "sessionId (fetchHistory_resume p st) = sessionId st"
  "appStatus (fetchHistory_resume p st) \<noteq> Loading"
  "appStatus (fetchHistory_resume p st) \<noteq> Ready \<Longrightarrow> messages (fetchHistory_resume p st) = messages st"
  by (auto simp add: fetchHistory_resume_def split: sum.splits)

lemma handleSend_resume_fields:
  "appStatus (fst (handleSend_resume p st)) = appStatus st"
  "sessionId (fst (handleSend_resume p st)) = sessionId st"
  by (auto simp add: handleSend_resume_def split: sum.splits prod.splits)

lemma invar_fire:
  assumes "invar s" and "enabled r s e"
  shows "invar (fire r e s)"
proof (cases e)
  case (UI u)
  show ?thesis
  proof (cases "snd (handler r u (app s))")
    case None
    then obtain st where h: "handler r u (app s) = (st, None)" by (metis prod.collapse)
    with handler_None[of r u "app s"] handler_appStatus[of r u "app s"] handler_sessionId[of r u "app s"] assms(1)
    show ?thesis using UI by (simp add: invar_def)
  next
    case (Some q)
    then obtain st where h: "handler r u (app s) = (st, Some q)" by (metis prod.collapse)
    from Some assms(2) UI have "appStatus (app s) = Ready \<and> \<not> isLoading (app s)"
      using handler_Some_permitted by simp
    with h handler_Some[of r u "app s" q] handler_appStatus[of r u "app s"] handler_sessionId[of r u "app s"] assms(1)
    show ?thesis using UI by (simp add: invar_def)
  qed
next
  case (HistoryResponse p)
  with assms have "appStatus (app s) = Loading" by (auto simp add: invar_def)
  with assms(1) fetchHistory_resume_fields[of p "app s"] show ?thesis
    using HistoryResponse by (auto simp add: invar_def)
next
  case (ChatResponse p)
  with assms have l: "isLoading (app s)" "length (chatInFlight s) = 1"
    by (auto simp add: invar_def split: if_splits)
  with assms(1) have "appStatus (app s) = Ready" by (auto simp add: invar_def)
  with l assms(1) handleSend_resume_fields[of p "app s"] resume_isLoading[of p "app s"] show ?thesis
    using ChatResponse by (auto simp add: invar_def)
qed

lemma invar_exec: "invar s \<Longrightarrow> exec r evs s = Some s' \<Longrightarrow> invar s'"
proof (induction evs arbitrary: s)
  case Nil
  then show ?case by simp
next
  case (Cons e es)
  from Cons.prems(2) have en: "enabled r s e" and rest: "exec r es (fire r e s) = Some s'"
    by (auto split: if_splits)
  from Cons.prems(1) en have "invar (fire r e s)" by (rule invar_fire)
  then show ?case using rest by (rule Cons.IH)
qed


text \<open>A rejected \<open>fetch\<close> and a response that is not \<open>ok\<close> always end in the \<open>catch\<close> block.\<close>

lemma handleSend_try_failure:
  assumes "p = Rejected e \<or> (\<exists>resp. p = Fulfilled resp \<and>
      (\<not> ok resp \<or> (\<exists>e'. json resp = Rejected e') \<or> (\<exists>e'. json resp = Fulfilled (JNull e'))))"
  shows "\<exists>error. handleSend_try p = Inl error
     \<and> (p = Rejected e \<longrightarrow> message error = message e)
     \<and> (\<forall>resp e'. p = Fulfilled resp \<and> json resp = Rejected e' \<longrightarrow> message error = message e')
     \<and> (\<forall>resp e'. p = Fulfilled resp \<and> json resp = Fulfilled (JNull e') \<longrightarrow> message error = message e')
     \<and> (\<forall>resp reply err. p = Fulfilled resp \<and> json resp = Fulfilled (JObject reply (Some err)) \<and> err \<noteq> []
          \<longrightarrow> message error = err)
     \<and> (\<forall>resp reply. p = Fulfilled resp \<and> (json resp = Fulfilled (JObject reply None)
            \<or> json resp = Fulfilled (JObject reply (Some [])))
          \<longrightarrow> message error = str ''Network response was not ok'')
     \<and> (\<forall>resp history. p = Fulfilled resp \<and> json resp = Fulfilled (JArray history)
          \<longrightarrow> message error = str ''Network response was not ok'')"
proof (cases p)
  case (Rejected e0)
  with assms show ?thesis by (simp add: handleSend_try_def)
next
  case (Fulfilled resp)
  show ?thesis
  proof (cases "json resp")
    case (Rejected e0)
    with Fulfilled show ?thesis by (simp add: handleSend_try_def)
  next
    case body: (Fulfilled data)
    show ?thesis
    proof (cases data)
      case (JNull e0)
      with Fulfilled body show ?thesis by (simp add: handleSend_try_def)
    next
      case (JArray history)
      with Fulfilled body assms have "\<not> ok resp" by simp
      with Fulfilled body JArray show ?thesis by (simp add: handleSend_try_def or_else_def)
    next
      case (JObject reply err)
      with Fulfilled body assms have "\<not> ok resp" by simp
      with Fulfilled body JObject show ?thesis
        by (cases err) (simp_all add: handleSend_try_def or_else_def)
    qed
  qed
qed

text \<open>
  A response that is \<open>ok\<close> is a success for \<open>handleSend\<close> whatever its body carries: the bot's
  entry is built from \<open>reply\<close> alone, and an \<open>error\<close> text in the body is not read.
\<close>

lemma handleSend_try_ok:
  "handleSend_try (Fulfilled \<lparr> ok = True, json = Fulfilled (JObject reply err) \<rparr>) =
     Inr \<lparr> sender = str ''bot'', text_field = reply, image = None \<rparr>"
  by (simp add: handleSend_try_def)

lemma fetchHistory_try_failure:
  assumes "p = Rejected e \<or> (\<exists>resp. p = Fulfilled resp \<and> \<not> ok resp)"
  shows "\<exists>error. fetchHistory_try p = Inl error"
  using assms
  by (auto simp add: fetchHistory_try_def split: promise.splits sum.splits json.splits)


text \<open>Past loading, no event changes \<open>appStatus\<close> and every event extends the log or keeps it.\<close>

lemma fire_appStatus:
  assumes "invar s" and "enabled r s e" and "appStatus (app s) \<noteq> Loading"
  shows "appStatus (app (fire r e s)) = appStatus (app s)"
proof (cases e)
  case (UI u)
  then show ?thesis using handler_appStatus[of r u "app s"]
    by (cases "handler r u (app s)") (auto split: option.splits)
next
  case (HistoryResponse p)
  with assms show ?thesis by (simp add: invar_def)
next
  case (ChatResponse p)
  then show ?thesis by (simp add: handleSend_resume_fields)
qed

lemma fire_prefix:
  assumes "invar s" and "enabled r s e" and "appStatus (app s) \<noteq> Loading"
  shows "prefix (messages (app s)) (messages (app (fire r e s)))"
proof (cases e)
  case (UI u)
  show ?thesis
  proof (cases "snd (handler r u (app s))")
    case None
    then obtain st where h: "handler r u (app s) = (st, None)" by (metis prod.collapse)
    with handler_None[of r u "app s"] None UI show ?thesis by simp
  next
    case (Some q)
    then obtain st where h: "handler r u (app s) = (st, Some q)" by (metis prod.collapse)
    with handler_Some[of r u "app s" q] Some UI show ?thesis by simp
  qed
next
  case (HistoryResponse p)
  with assms show ?thesis by (simp add: invar_def)
next
  case (ChatResponse p)
  then show ?thesis by (simp add: resume_messages)
qed

lemma exec_prefix:
  "invar s \<Longrightarrow> appStatus (app s) \<noteq> Loading \<Longrightarrow> exec r evs s = Some s' \<Longrightarrow>
     prefix (messages (app s)) (messages (app s')) \<and> appStatus (app s') = appStatus (app s)"
proof (induction evs arbitrary: s)
  case Nil
  then show ?case by simp
next
  case (Cons e es)
  from Cons.prems(3) have en: "enabled r s e" and rest: "exec r es (fire r e s) = Some s'"
    by (auto split: if_splits)
  from Cons.prems(1) en have i: "invar (fire r e s)" by (rule invar_fire)
  from Cons.prems(1) en Cons.prems(2) have a: "appStatus (app (fire r e s)) = appStatus (app s)"
    by (rule fire_appStatus)
  from Cons.prems(1) en Cons.prems(2) have p: "prefix (messages (app s)) (messages (app (fire r e s)))"
    by (rule fire_prefix)
  from a Cons.prems(2) have "appStatus (app (fire r e s)) \<noteq> Loading" by simp
  from Cons.IH[OF i this rest] a p show ?case by (auto intro: prefix_order.trans)
qed

lemma run_invar: "exec r evs (boot stored now rnd) = Some s \<Longrightarrow> invar s"
  using invar_boot invar_exec by blast


text \<open>
  While a send awaits its response, nothing else touches the log: the view lets no
  second send start, and the busy flag stays up.
\<close>

lemma permitted_busy:
  "permitted r st e \<Longrightarrow> isLoading st \<Longrightarrow> snd (handler r e st) = None"
  by (cases e) (auto simp add: handleFileChange_def removeFile_def handleVoiceListen_def)

lemma waiting_step:
  assumes "invar s" and "isLoading (app s)" and "enabled r s e" and "\<forall>p. e \<noteq> ChatResponse p"
  shows "isLoading (app (fire r e s)) \<and> messages (app (fire r e s)) = messages (app s)"
proof (cases e)
  case (UI u)
  with assms(2,3) have n: "snd (handler r u (app s)) = None" by (simp add: permitted_busy)
  then obtain st where "handler r u (app s) = (st, None)" by (metis prod.collapse)
  with handler_None[OF n] assms(2) UI show ?thesis by simp
next
  case (HistoryResponse p)
  with assms(1,3) have "appStatus (app s) = Loading" by (auto simp add: invar_def)
  with assms(1,2) show ?thesis by (simp add: invar_def)
next
  case (ChatResponse p)
  with assms(4) show ?thesis by simp
qed

lemma waiting_exec:
  "invar s \<Longrightarrow> isLoading (app s) \<Longrightarrow> exec r evs s = Some s' \<Longrightarrow> \<forall>p. ChatResponse p \<notin> set evs \<Longrightarrow>
     isLoading (app s') \<and> messages (app s') = messages (app s)"
proof (induction evs arbitrary: s)
  case Nil
  then show ?case by simp
next
  case (Cons e es)
  from Cons.prems(3) have en: "enabled r s e" and rest: "exec r es (fire r e s) = Some s'"
    by (auto split: if_splits)
  from Cons.prems(4) have ne: "\<forall>p. e \<noteq> ChatResponse p" and nes: "\<forall>p. ChatResponse p \<notin> set es"
    by auto
  from Cons.prems(1) en have i: "invar (fire r e s)" by (rule invar_fire)
  from waiting_step[OF Cons.prems(1) Cons.prems(2) en ne]
  have l: "isLoading (app (fire r e s))" and m: "messages (app (fire r e s)) = messages (app s)"
    by simp_all
  from Cons.IH[OF i l rest nes] m show ?case by simp
qed

text \<open>
  So a send started from the view, whatever happens before its response arrives, ends
  with exactly two entries added to the log it found: the user's, then the bot's reply
  or the error entry.
\<close>

lemma send_roundtrip:
  assumes "exec r evs (boot stored now rnd) = Some s"
    and "enabled r s (UI e)" and "snd (handler r e (app s)) = Some formData"
    and "exec r evs' (fire r (UI e) s) = Some s'" and "\<forall>p. ChatResponse p \<notin> set evs'"
  shows "enabled r s' (ChatResponse p)"
    and "messages (app (fire r (ChatResponse p) s')) = messages (app s) @
       [\<lparr> sender = str ''user'', text_field = Some (trim (input (app s))), image = filePreview (app s) \<rparr>,
        case handleSend_try p of
          Inr botMessage \<Rightarrow> botMessage
        | Inl error \<Rightarrow> \<lparr> sender = str ''bot'',
            text_field = Some (str ''Sorry, something went wrong: '' @ message error), image = None \<rparr>]"
    and "\<not> isLoading (app (fire r (ChatResponse p) s'))"
proof -
  let ?s1 = "fire r (UI e) s"
  from assms(1) have i: "invar s" by (rule run_invar)
  from i assms(2) have i1: "invar ?s1" by (rule invar_fire)
  obtain st where h: "handler r e (app s) = (st, Some formData)"
    using assms(3) by (metis prod.collapse)
  from handler_Some[OF assms(3)] h
  have l1: "isLoading (app ?s1)" and m1: "messages (app ?s1) = messages (app s) @
       [\<lparr> sender = str ''user'', text_field = Some (trim (input (app s))), image = filePreview (app s) \<rparr>]"
    by simp_all
  from waiting_exec[OF i1 l1 assms(4) assms(5)]
  have l': "isLoading (app s')" and m': "messages (app s') = messages (app ?s1)" by simp_all
  from i1 assms(4) have i': "invar s'" by (rule invar_exec)
  with l' show "enabled r s' (ChatResponse p)" by (auto simp add: invar_def)
  from m' m1 show "messages (app (fire r (ChatResponse p) s')) = messages (app s) @
       [\<lparr> sender = str ''user'', text_field = Some (trim (input (app s))), image = filePreview (app s) \<rparr>,
        case handleSend_try p of
          Inr botMessage \<Rightarrow> botMessage
        | Inl error \<Rightarrow> \<lparr> sender = str ''bot'',
            text_field = Some (str ''Sorry, something went wrong: '' @ message error), image = None \<rparr>]"
    by (simp add: resume_messages)
  show "\<not> isLoading (app (fire r (ChatResponse p) s'))" by (simp add: resume_isLoading)
qed

text \<open>The concrete run, step by step.\<close>

lemma example_run:
  "exec True [HistoryResponse example_history_empty] (boot None (str ''1'') (str ''a'')) = Some example_ready"
  "exec True [HistoryResponse example_history_empty, UI (InputChange (str ''hello''))]
     (boot None (str ''1'') (str ''a'')) = Some example_typed"
  "exec True [HistoryResponse example_history_empty, UI (InputChange (str ''hello'')), UI ClickSend]
     (boot None (str ''1'') (str ''a'')) = Some example_sending"
  "exec True [UI (InputChange (str ''hello'')), UI ClickSend, ChatResponse example_reply]
     example_ready = Some example_answered"
  by (simp_all add: example_defs eval_defs)

lemma example_logs:
  "messages (app example_ready) = [greeting]"
  "messages (app example_answered) =
     [greeting,
      \<lparr> sender = str ''user'', text_field = Some (str ''hello''), image = None \<rparr>,
      \<lparr> sender = str ''bot'', text_field = Some (str ''hello''), image = None \<rparr>]"
  by (simp_all add: example_defs eval_defs)

section \<open>The claims\<close>

text \<open>
  Claim C1, as the code has it. A send whose text is not empty once trimmed, with a known
  session id, answered by a successful response carrying a reply, appends exactly two
  entries to the log, in this order: the user's message with the trimmed text (and the
  preview of the pending attachment), then one message of the bot whose text is the
  reply.
\<close>

theorem send_success_trimmed:
  assumes "trim (input st) \<noteq> []" and "sessionId st = Some sid" and "sid \<noteq> []"
  shows "messages (fst (handleSend (Fulfilled \<lparr> ok = True, json = Fulfilled (JObject (Some reply) err) \<rparr>) st)) =
     messages st @
       [\<lparr> sender = str ''user'', text_field = Some (trim (input st)), image = filePreview st \<rparr>,
        \<lparr> sender = str ''bot'', text_field = Some reply, image = None \<rparr>]"
proof -
  from assms have "handleSend_start st =
    (removeFile (st\<lparr> isLoading := True,
        messages := messages st @ [\<lparr> sender = str ''user'', text_field = Some (trim (input st)), image = filePreview st \<rparr>],
        input := [] \<rparr>),
     Some \<lparr> form_sessionId = toUSVString sid, form_message = toUSVString (trim (input st)),
            form_file = selectedFile st \<rparr>)"
    by (simp add: handleSend_start_accept)
  then show ?thesis
    by (simp add: handleSend_def resume_messages handleSend_try_def removeFile_def)
qed

text \<open>The send of \<open>" hi "\<close> in the example state, answered with the reply \<open>hello\<close>.\<close>

theorem send_success_trimmed_witness:
  "trim (input example_state) \<noteq> [] \<and> sessionId example_state = Some (str ''session_1_a'')
   \<and> str ''session_1_a'' \<noteq> []
   \<and> messages (fst (handleSend example_reply example_state)) =
       [greeting,
        \<lparr> sender = str ''user'', text_field = Some (str ''hi''), image = None \<rparr>,
        \<lparr> sender = str ''bot'', text_field = Some (str ''hello''), image = None \<rparr>]"
proof -
  have h1: "trim (input example_state) \<noteq> []" by (simp add: example_defs eval_defs)
  have h2: "sessionId example_state = Some (str ''session_1_a'')" by (simp add: example_defs)
  have h3: "str ''session_1_a'' \<noteq> []" by (simp add: str_def)
  have t: "trim (input example_state) = str ''hi''" by (simp add: example_defs eval_defs)
  have c: "messages example_state = [greeting]" "filePreview example_state = None"
    by (simp_all add: example_defs)
  from send_success_trimmed[OF h1 h2 h3, of "str ''hello''" None] t c
  have "messages (fst (handleSend example_reply example_state)) =
       [greeting,
        \<lparr> sender = str ''user'', text_field = Some (str ''hi''), image = None \<rparr>,
        \<lparr> sender = str ''bot'', text_field = Some (str ''hello''), image = None \<rparr>]"
    by (simp add: example_reply_def)
  with h1 h2 h3 show ?thesis by simp
qed

text \<open>
  Claim C1 as it is written fails. In the example state the text \<open>" hi "\<close> is not empty, the
  view is ready and nothing is in flight, and the backend replies; but the user's entry
  carries \<open>hi\<close>, not the text given. And with the text \<open>"  "\<close>, not empty either, the
  log gains nothing.
\<close>

theorem send_success_raw_text_counterexample:
  "appStatus example_state = Ready \<and> \<not> isLoading example_state \<and> input example_state \<noteq> []
   \<and> sessionId example_state = Some (str ''session_1_a'')
   \<and> messages (fst (handleSend example_reply example_state)) \<noteq>
       messages example_state @
         [\<lparr> sender = str ''user'', text_field = Some (input example_state), image = None \<rparr>,
          \<lparr> sender = str ''bot'', text_field = Some (str ''hello''), image = None \<rparr>]
   \<and> input (example_state\<lparr> input := str ''  '' \<rparr>) \<noteq> []
   \<and> messages (fst (handleSend example_reply (example_state\<lparr> input := str ''  '' \<rparr>))) =
       messages example_state"
  by (simp add: example_defs eval_defs)

text \<open>
  Claim C2. A send that passes its guard and whose request fails appends exactly the
  user's message and one message of the bot, whose text is
  \<open>Sorry, something went wrong: \<close> followed by the reason of the failure, and no
  exception leaves \<open>handleSend\<close>. The request fails when \<open>fetch\<close> rejects, when the
  response is not \<open>ok\<close>, or when its body cannot be read (\<open>json()\<close> rejects, or the body is
  \<open>null\<close>). The reason is, in each case: the message of the network error; the message
  of the error that reading the body raised; the \<open>error\<close> text of a response that is not
  \<open>ok\<close>, when it has one; and \<open>Network response was not ok\<close> when such a response has
  none.
\<close>

theorem send_failure:
  assumes "trim (input st) \<noteq> [] \<or> selectedFile st \<noteq> None" and "sessionId st = Some sid" and "sid \<noteq> []"
    and "p = Rejected e \<or> (\<exists>resp. p = Fulfilled resp \<and>
      (\<not> ok resp \<or> (\<exists>e'. json resp = Rejected e') \<or> (\<exists>e'. json resp = Fulfilled (JNull e'))))"
  shows "\<exists>reason.
     messages (fst (handleSend p st)) = messages st @
       [\<lparr> sender = str ''user'', text_field = Some (trim (input st)), image = filePreview st \<rparr>,
        \<lparr> sender = str ''bot'', text_field = Some (str ''Sorry, something went wrong: '' @ reason),
          image = None \<rparr>]
     \<and> snd (handleSend p st) = None
     \<and> (p = Rejected e \<longrightarrow> reason = message e)
     \<and> (\<forall>resp e'. p = Fulfilled resp \<and> json resp = Rejected e' \<longrightarrow> reason = message e')
     \<and> (\<forall>resp e'. p = Fulfilled resp \<and> json resp = Fulfilled (JNull e') \<longrightarrow> reason = message e')
     \<and> (\<forall>resp reply err. p = Fulfilled resp \<and> json resp = Fulfilled (JObject reply (Some err)) \<and> err \<noteq> []
          \<longrightarrow> reason = err)
     \<and> (\<forall>resp reply. p = Fulfilled resp \<and> (json resp = Fulfilled (JObject reply None)
            \<or> json resp = Fulfilled (JObject reply (Some [])))
          \<longrightarrow> reason = str ''Network response was not ok'')
     \<and> (\<forall>resp history. p = Fulfilled resp \<and> json resp = Fulfilled (JArray history)
          \<longrightarrow> reason = str ''Network response was not ok'')"
proof -
  from assms(1-3) have start: "handleSend_start st =
    (removeFile (st\<lparr> isLoading := True,
        messages := messages st @ [\<lparr> sender = str ''user'', text_field = Some (trim (input st)), image = filePreview st \<rparr>],
        input := [] \<rparr>),
     Some \<lparr> form_sessionId = toUSVString sid, form_message = toUSVString (trim (input st)),
            form_file = selectedFile st \<rparr>)"
    by (rule handleSend_start_accept)
  from handleSend_try_failure[OF assms(4)] obtain error where err: "handleSend_try p = Inl error"
    and r1: "p = Rejected e \<longrightarrow> message error = message e"
    and r2: "\<forall>resp e'. p = Fulfilled resp \<and> json resp = Rejected e' \<longrightarrow> message error = message e'"
    and r3: "\<forall>resp e'. p = Fulfilled resp \<and> json resp = Fulfilled (JNull e') \<longrightarrow> message error = message e'"
    and r4: "\<forall>resp reply err. p = Fulfilled resp \<and> json resp = Fulfilled (JObject reply (Some err)) \<and> err \<noteq> []
          \<longrightarrow> message error = err"
    and r5: "\<forall>resp reply. p = Fulfilled resp \<and> (json resp = Fulfilled (JObject reply None)
            \<or> json resp = Fulfilled (JObject reply (Some [])))
          \<longrightarrow> message error = str ''Network response was not ok''"
    and r6: "\<forall>resp history. p = Fulfilled resp \<and> json resp = Fulfilled (JArray history)
          \<longrightarrow> message error = str ''Network response was not ok''"
    by (elim exE conjE)
  from start err have m: "messages (fst (handleSend p st)) = messages st @
       [\<lparr> sender = str ''user'', text_field = Some (trim (input st)), image = filePreview st \<rparr>,
        \<lparr> sender = str ''bot'', text_field = Some (str ''Sorry, something went wrong: '' @ message error),
          image = None \<rparr>]"
    by (simp add: handleSend_def resume_messages removeFile_def)
  from start have t: "snd (handleSend p st) = None"
    by (simp add: handleSend_def resume_thrown)
  show ?thesis
    by (rule exI[of _ "message error"]) (intro conjI m t r1 r2 r3 r4 r5 r6)
qed

text \<open>
  The send of the example state with a network error, with a refusal that carries an
  error text, with a refusal that carries none, and with a refusal whose body is not JSON.
\<close>

theorem send_failure_witness:
  "trim (input example_state) \<noteq> [] \<and> sessionId example_state = Some (str ''session_1_a'')
   \<and> str ''session_1_a'' \<noteq> []
   \<and> example_network_error = Rejected (JsError (str ''Failed to fetch''))
   \<and> messages (fst (handleSend example_network_error example_state)) =
       [greeting,
        \<lparr> sender = str ''user'', text_field = Some (str ''hi''), image = None \<rparr>,
        \<lparr> sender = str ''bot'',
          text_field = Some (str ''Sorry, something went wrong: Failed to fetch''), image = None \<rparr>]
   \<and> snd (handleSend example_network_error example_state) = None
   \<and> example_refusal = Fulfilled \<lparr> ok = False, json = Fulfilled (JObject None (Some (str ''No message''))) \<rparr>
   \<and> messages (fst (handleSend example_refusal example_state)) =
       [greeting,
        \<lparr> sender = str ''user'', text_field = Some (str ''hi''), image = None \<rparr>,
        \<lparr> sender = str ''bot'',
          text_field = Some (str ''Sorry, something went wrong: No message''), image = None \<rparr>]
   \<and> snd (handleSend example_refusal example_state) = None
   \<and> example_refusal_bare = Fulfilled \<lparr> ok = False, json = Fulfilled (JObject None None) \<rparr>
   \<and> messages (fst (handleSend example_refusal_bare example_state)) =
       [greeting,
        \<lparr> sender = str ''user'', text_field = Some (str ''hi''), image = None \<rparr>,
        \<lparr> sender = str ''bot'',
          text_field = Some (str ''Sorry, something went wrong: Network response was not ok''),
          image = None \<rparr>]
   \<and> example_unreadable = Fulfilled \<lparr> ok = False, json = Rejected (JsError (str ''Unexpected token'')) \<rparr>
   \<and> messages (fst (handleSend example_unreadable example_state)) =
       [greeting,
        \<lparr> sender = str ''user'', text_field = Some (str ''hi''), image = None \<rparr>,
        \<lparr> sender = str ''bot'',
          text_field = Some (str ''Sorry, something went wrong: Unexpected token''), image = None \<rparr>]"
proof -
  let ?resp = "\<lparr> ok = False, json = Fulfilled (JObject None (Some (str ''No message''))) \<rparr>"
  let ?bare = "\<lparr> ok = False, json = Fulfilled (JObject None None) \<rparr>"
  let ?unreadable = "\<lparr> ok = False, json = Rejected (JsError (str ''Unexpected token'')) \<rparr>"
  let ?user = "\<lparr> sender = str ''user'', text_field = Some (trim (input example_state)),
    image = filePreview example_state \<rparr>"
  have t: "trim (input example_state) = str ''hi''" by (simp add: example_defs eval_defs)
  then have h0: "trim (input example_state) \<noteq> []" by (simp add: str_def)
  then have h1: "trim (input example_state) \<noteq> [] \<or> selectedFile example_state \<noteq> None"
    by (rule disjI1)
  have h2: "sessionId example_state = Some (str ''session_1_a'')" by (simp add: example_defs)
  have h3: "str ''session_1_a'' \<noteq> []" by (simp add: str_def)
  have n: "example_network_error = Rejected (JsError (str ''Failed to fetch''))"
    by (simp add: example_defs)
  then have h4: "example_network_error = Rejected (JsError (str ''Failed to fetch''))
      \<or> (\<exists>resp. example_network_error = Fulfilled resp \<and>
        (\<not> ok resp \<or> (\<exists>e'. json resp = Rejected e') \<or> (\<exists>e'. json resp = Fulfilled (JNull e'))))"
    by (rule disjI1)
  have f: "example_refusal = Fulfilled ?resp" by (simp add: example_defs)
  then have h5: "example_refusal = Rejected (JsError [])
      \<or> (\<exists>resp. example_refusal = Fulfilled resp \<and>
        (\<not> ok resp \<or> (\<exists>e'. json resp = Rejected e') \<or> (\<exists>e'. json resp = Fulfilled (JNull e'))))"
    by (intro disjI2 exI[of _ ?resp]) simp
  have b: "example_refusal_bare = Fulfilled ?bare" by (simp add: example_defs)
  then have h6: "example_refusal_bare = Rejected (JsError [])
      \<or> (\<exists>resp. example_refusal_bare = Fulfilled resp \<and>
        (\<not> ok resp \<or> (\<exists>e'. json resp = Rejected e') \<or> (\<exists>e'. json resp = Fulfilled (JNull e'))))"
    by (intro disjI2 exI[of _ ?bare]) simp
  have u: "example_unreadable = Fulfilled ?unreadable" by (simp add: example_defs)
  then have h7: "example_unreadable = Rejected (JsError [])
      \<or> (\<exists>resp. example_unreadable = Fulfilled resp \<and>
        (\<not> ok resp \<or> (\<exists>e'. json resp = Rejected e') \<or> (\<exists>e'. json resp = Fulfilled (JNull e'))))"
    by (intro disjI2 exI[of _ ?unreadable]) simp
  from send_failure[OF h1 h2 h3 h4] obtain reason1 where
    m1: "messages (fst (handleSend example_network_error example_state)) = messages example_state @
       [?user, \<lparr> sender = str ''bot'', text_field = Some (str ''Sorry, something went wrong: '' @ reason1),
          image = None \<rparr>]"
    and t1: "snd (handleSend example_network_error example_state) = None"
    and r1: "example_network_error = Rejected (JsError (str ''Failed to fetch'')) \<longrightarrow>
               reason1 = message (JsError (str ''Failed to fetch''))"
    by (elim exE conjE)
  from send_failure[OF h1 h2 h3 h5] obtain reason2 where
    m2: "messages (fst (handleSend example_refusal example_state)) = messages example_state @
       [?user, \<lparr> sender = str ''bot'', text_field = Some (str ''Sorry, something went wrong: '' @ reason2),
          image = None \<rparr>]"
    and t2: "snd (handleSend example_refusal example_state) = None"
    and r2: "\<forall>resp reply err. example_refusal = Fulfilled resp
               \<and> json resp = Fulfilled (JObject reply (Some err)) \<and> err \<noteq> [] \<longrightarrow> reason2 = err"
    by (elim exE conjE)
  from send_failure[OF h1 h2 h3 h6] obtain reason3 where
    m3: "messages (fst (handleSend example_refusal_bare example_state)) = messages example_state @
       [?user, \<lparr> sender = str ''bot'', text_field = Some (str ''Sorry, something went wrong: '' @ reason3),
          image = None \<rparr>]"
    and r3: "\<forall>resp reply. example_refusal_bare = Fulfilled resp
               \<and> (json resp = Fulfilled (JObject reply None) \<or> json resp = Fulfilled (JObject reply (Some [])))
               \<longrightarrow> reason3 = str ''Network response was not ok''"
    by (elim exE conjE)
  from send_failure[OF h1 h2 h3 h7] obtain reason4 where
    m4: "messages (fst (handleSend example_unreadable example_state)) = messages example_state @
       [?user, \<lparr> sender = str ''bot'', text_field = Some (str ''Sorry, something went wrong: '' @ reason4),
          image = None \<rparr>]"
    and r4: "\<forall>resp e'. example_unreadable = Fulfilled resp \<and> json resp = Rejected e'
               \<longrightarrow> reason4 = message e'"
    by (elim exE conjE)
  from r1 n have e1: "reason1 = str ''Failed to fetch''" by simp
  have ne: "str ''No message'' \<noteq> []" by (simp add: str_def)
  from r2[rule_format, of ?resp None "str ''No message''"] f ne
  have e2: "reason2 = str ''No message''" by simp
  from r3[rule_format, of ?bare None] b
  have e3: "reason3 = str ''Network response was not ok''" by simp
  from r4[rule_format, of ?unreadable "JsError (str ''Unexpected token'')"] u
  have e4: "reason4 = str ''Unexpected token''" by simp
  have c: "messages example_state = [greeting]" "filePreview example_state = None"
    by (simp_all add: example_defs)
  from m1 e1 t c have m1': "messages (fst (handleSend example_network_error example_state)) =
       [greeting,
        \<lparr> sender = str ''user'', text_field = Some (str ''hi''), image = None \<rparr>,
        \<lparr> sender = str ''bot'',
          text_field = Some (str ''Sorry, something went wrong: Failed to fetch''), image = None \<rparr>]"
    by (simp add: str_def)
  from m2 e2 t c have m2': "messages (fst (handleSend example_refusal example_state)) =
       [greeting,
        \<lparr> sender = str ''user'', text_field = Some (str ''hi''), image = None \<rparr>,
        \<lparr> sender = str ''bot'',
          text_field = Some (str ''Sorry, something went wrong: No message''), image = None \<rparr>]"
    by (simp add: str_def)
  from m3 e3 t c have m3': "messages (fst (handleSend example_refusal_bare example_state)) =
       [greeting,
        \<lparr> sender = str ''user'', text_field = Some (str ''hi''), image = None \<rparr>,
        \<lparr> sender = str ''bot'',
          text_field = Some (str ''Sorry, something went wrong: Network response was not ok''),
          image = None \<rparr>]"
    by (simp add: str_def)
  from m4 e4 t c have m4': "messages (fst (handleSend example_unreadable example_state)) =
       [greeting,
        \<lparr> sender = str ''user'', text_field = Some (str ''hi''), image = None \<rparr>,
        \<lparr> sender = str ''bot'',
          text_field = Some (str ''Sorry, something went wrong: Unexpected token''), image = None \<rparr>]"
    by (simp add: str_def)
  from h0 h2 h3 n m1' t1 f m2' t2 b m3' u m4' show ?thesis by simp
qed

text \<open>
  Claim C3. In every state the component reaches, \<open>isLoading\<close> is true exactly while a
  chat request is in flight, and at most one is. A send that passes its guard has set
  \<open>isLoading\<close> when it suspends at its first \<open>await\<close>; an event that the view allows and
  that starts such a send finds \<open>isLoading\<close> false. When the response arrives \<open>isLoading\<close> is true, and it is false once
  \<open>handleSend\<close> has finished, whatever the response: in any state and on every path
  through \<open>try\<close>, \<open>catch\<close> and \<open>finally\<close>.
\<close>

theorem busy_flag:
  assumes "exec r evs (boot stored now rnd) = Some s"
  shows "(isLoading (app s) \<longleftrightarrow> chatInFlight s \<noteq> [])
     \<and> length (chatInFlight s) \<le> 1
     \<and> (snd (handleSend_start st) \<noteq> None \<longrightarrow> isLoading (fst (handleSend_start st)))
     \<and> (enabled r s (UI e) \<and> snd (handler r e (app s)) \<noteq> None \<longrightarrow>
          \<not> isLoading (app s) \<and> isLoading (fst (handler r e (app s))))
     \<and> (enabled r s (ChatResponse p) \<longrightarrow>
          isLoading (app s) \<and> \<not> isLoading (app (fire r (ChatResponse p) s)))
     \<and> \<not> isLoading (fst (handleSend_resume p st))"
proof (intro conjI impI)
  from assms have i: "invar s" by (rule run_invar)
  then show "isLoading (app s) \<longleftrightarrow> chatInFlight s \<noteq> []"
    by (auto simp add: invar_def split: if_splits)
  from i show "length (chatInFlight s) \<le> 1"
    by (simp add: invar_def split: if_splits)
  {
    assume "snd (handleSend_start st) \<noteq> None"
    then obtain q where "snd (handler r ClickSend st) = Some q" by auto
    then show "isLoading (fst (handleSend_start st))" using handler_Some[of r ClickSend st q] by simp
  }
  show "\<not> isLoading (fst (handleSend_resume p st))" by (simp add: resume_isLoading)
  {
    assume a: "enabled r s (UI e) \<and> snd (handler r e (app s)) \<noteq> None"
    then obtain q where q: "snd (handler r e (app s)) = Some q" by auto
    with a show "\<not> isLoading (app s)" using handler_Some_permitted[of r e "app s" q] by simp
    from q show "isLoading (fst (handler r e (app s)))" using handler_Some by blast
  }
  {
    assume "enabled r s (ChatResponse p)"
    with i show "isLoading (app s)" by (auto simp add: invar_def split: if_splits)
    show "\<not> isLoading (app (fire r (ChatResponse p) s))" by (simp add: resume_isLoading)
  }
qed

text \<open>The click on send in the example run, and the arrival of a failed response.\<close>

theorem busy_flag_witness:
  "exec True [HistoryResponse example_history_empty, UI (InputChange (str ''hello''))]
     (boot None (str ''1'') (str ''a'')) = Some example_typed
   \<and> enabled True example_typed (UI ClickSend)
   \<and> snd (handler True ClickSend (app example_typed)) \<noteq> None
   \<and> \<not> isLoading (app example_typed)
   \<and> isLoading (fst (handler True ClickSend (app example_typed)))
   \<and> exec True [HistoryResponse example_history_empty, UI (InputChange (str ''hello'')), UI ClickSend]
     (boot None (str ''1'') (str ''a'')) = Some example_sending
   \<and> enabled True example_sending (ChatResponse example_network_error)
   \<and> isLoading (app example_sending)
   \<and> chatInFlight example_sending \<noteq> []
   \<and> \<not> isLoading (app (fire True (ChatResponse example_network_error) example_sending))
   \<and> snd (handleSend_start example_state) \<noteq> None
   \<and> isLoading (fst (handleSend_start example_state))"
proof -
  have a: "enabled True example_typed (UI ClickSend)" by (simp add: example_defs eval_defs)
  have d: "snd (handleSend_start example_state) \<noteq> None" by (simp add: example_defs eval_defs)
  have b: "snd (handler True ClickSend (app example_typed)) \<noteq> None"
    by (simp add: example_defs eval_defs)
  have c: "enabled True example_sending (ChatResponse example_network_error)"
    by (simp add: example_defs eval_defs)
  note t = busy_flag[OF example_run(2), where e = ClickSend and p = example_network_error
      and st = example_state]
  note s = busy_flag[OF example_run(3), where e = ClickSend and p = example_network_error]
  from t a b have 1: "\<not> isLoading (app example_typed) \<and> isLoading (fst (handler True ClickSend (app example_typed)))"
    by simp
  from s c have 2: "isLoading (app example_sending) \<and> chatInFlight example_sending \<noteq> []
     \<and> \<not> isLoading (app (fire True (ChatResponse example_network_error) example_sending))"
    by simp
  from t d have 3: "isLoading (fst (handleSend_start example_state))" by simp
  from example_run(2) example_run(3) a b c d 1 2 3 show ?thesis by simp
qed

text \<open>
  Claim C4. When the history load succeeds (the response is \<open>ok\<close> and its body is a
  sequence of messages), a non-empty sequence becomes the log, an empty one makes the log
  the single greeting, of length 1, and in both cases \<open>appStatus\<close> becomes \<open>'ready'\<close>.
\<close>

theorem history_success:
  "(history \<noteq> [] \<longrightarrow>
      messages (fetchHistory_resume (Fulfilled \<lparr> ok = True, json = Fulfilled (JArray history) \<rparr>) st) = history)
   \<and> (history = [] \<longrightarrow>
      messages (fetchHistory_resume (Fulfilled \<lparr> ok = True, json = Fulfilled (JArray history) \<rparr>) st) = [greeting]
      \<and> length (messages (fetchHistory_resume (Fulfilled \<lparr> ok = True, json = Fulfilled (JArray history) \<rparr>) st)) = 1)
   \<and> appStatus (fetchHistory_resume (Fulfilled \<lparr> ok = True, json = Fulfilled (JArray history) \<rparr>) st) = Ready"
  by (simp add: fetchHistory_resume_def fetchHistory_try_def)

text \<open>A history of two messages, and the empty history.\<close>

theorem history_success_witness:
  "[greeting, greeting] \<noteq> []
   \<and> messages (fetchHistory_resume (Fulfilled \<lparr> ok = True, json = Fulfilled (JArray [greeting, greeting]) \<rparr>)
        init_state) = [greeting, greeting]
   \<and> messages (fetchHistory_resume example_history_empty init_state) = [greeting]
   \<and> length (messages (fetchHistory_resume example_history_empty init_state)) = 1
   \<and> appStatus (fetchHistory_resume example_history_empty init_state) = Ready"
  using history_success[of "[greeting, greeting]" init_state] history_success[of "[]" init_state]
  by (simp add: example_history_empty_def)

text \<open>
  Claim C5. When the history load fails (\<open>fetch\<close> rejects, or the response is not \<open>ok\<close>),
  \<open>appStatus\<close> becomes \<open>'error'\<close> and the log is empty; and after any further events of
  that activation \<open>appStatus\<close> is still \<open>'error'\<close> and the log still empty.
\<close>

theorem history_failure:
  assumes "exec r evs (boot stored now rnd) = Some s"
    and "enabled r s (HistoryResponse p)"
    and "p = Rejected e \<or> (\<exists>resp. p = Fulfilled resp \<and> \<not> ok resp)"
    and "exec r evs' (fire r (HistoryResponse p) s) = Some s'"
  shows "appStatus (app (fire r (HistoryResponse p) s)) = Error
     \<and> messages (app (fire r (HistoryResponse p) s)) = []
     \<and> appStatus (app s') = Error
     \<and> messages (app s') = []"
proof -
  let ?s1 = "fire r (HistoryResponse p) s"
  from assms(1) have i: "invar s" by (rule run_invar)
  from i assms(2) have i1: "invar ?s1" by (rule invar_fire)
  from assms(3) obtain error where "fetchHistory_try p = Inl error"
    using fetchHistory_try_failure by blast
  then have f: "appStatus (app ?s1) = Error" by (simp add: fetchHistory_resume_def)
  with i1 have m: "messages (app ?s1) = []" by (simp add: invar_def)
  from f have "appStatus (app ?s1) \<noteq> Loading" by simp
  from exec_prefix[OF i1 this assms(4)] f have f': "appStatus (app s') = Error" by simp
  from i1 assms(4) have "invar s'" by (rule invar_exec)
  with f' have "messages (app s') = []" by (simp add: invar_def)
  with f m f' show ?thesis by simp
qed

text \<open>
  The history request of a fresh installation fails; the recogniser then fires two callbacks.
  The send button does not exist.
\<close>

theorem history_failure_witness:
  "exec True [] (boot None (str ''1'') (str ''a'')) = Some example_boot
   \<and> enabled True example_boot (HistoryResponse example_network_error)
   \<and> example_network_error = Rejected (JsError (str ''Failed to fetch''))
   \<and> exec True [UI RecognitionEnd, UI (RecognitionResult (str ''hello''))] example_failed =
        Some (fire True (UI (RecognitionResult (str ''hello''))) (fire True (UI RecognitionEnd) example_failed))
   \<and> appStatus (app example_failed) = Error
   \<and> messages (app example_failed) = []
   \<and> appStatus (app (fire True (UI (RecognitionResult (str ''hello'')))
        (fire True (UI RecognitionEnd) example_failed))) = Error
   \<and> messages (app (fire True (UI (RecognitionResult (str ''hello'')))
        (fire True (UI RecognitionEnd) example_failed))) = []
   \<and> \<not> enabled True example_failed (UI ClickSend)"
proof -
  let ?s' = "fire True (UI (RecognitionResult (str ''hello''))) (fire True (UI RecognitionEnd) example_failed)"
  have h1: "exec True [] (boot None (str ''1'') (str ''a'')) = Some example_boot"
    by (simp add: example_boot_def)
  have h2: "enabled True example_boot (HistoryResponse example_network_error)"
    by (simp add: example_defs eval_defs)
  have n: "example_network_error = Rejected (JsError (str ''Failed to fetch''))"
    by (simp add: example_defs)
  then have h3: "example_network_error = Rejected (JsError (str ''Failed to fetch''))
      \<or> (\<exists>resp. example_network_error = Fulfilled resp \<and> \<not> ok resp)" by (rule disjI1)
  have h4: "exec True [UI RecognitionEnd, UI (RecognitionResult (str ''hello''))]
      (fire True (HistoryResponse example_network_error) example_boot) = Some ?s'"
    by (simp add: example_failed_def)
  have k: "\<not> enabled True example_failed (UI ClickSend)" by (simp add: example_defs eval_defs)
  from history_failure[OF h1 h2 h3 h4] h1 h2 n h4 k show ?thesis
    by (simp add: example_failed_def)
qed

text \<open>
  Claim C6. With empty text and no pending attachment, or with no session id,
  \<open>handleSend\<close> changes nothing at all (log, busy flag and every other cell) and issues no
  request.
\<close>

theorem send_noop:
  assumes "(input st = [] \<and> selectedFile st = None) \<or> sessionId st = None"
  shows "handleSend_start st = (st, None) \<and> handleSend p st = (st, None)"
proof -
  from assms have "(trim (input st) = [] \<and> selectedFile st = None) \<or> falsy (sessionId st)"
    by (auto simp add: trim_Nil falsy_def)
  then have "handleSend_start st = (st, None)" by (rule handleSend_start_guard)
  then show ?thesis by (simp add: handleSend_def)
qed

text \<open>The example state with the textarea emptied, and with the session id unset.\<close>

theorem send_noop_witness:
  "input (example_state\<lparr> input := [] \<rparr>) = [] \<and> selectedFile (example_state\<lparr> input := [] \<rparr>) = None
   \<and> handleSend_start (example_state\<lparr> input := [] \<rparr>) = (example_state\<lparr> input := [] \<rparr>, None)
   \<and> handleSend example_reply (example_state\<lparr> input := [] \<rparr>) = (example_state\<lparr> input := [] \<rparr>, None)
   \<and> sessionId (example_state\<lparr> sessionId := None \<rparr>) = None
   \<and> handleSend_start (example_state\<lparr> sessionId := None \<rparr>) = (example_state\<lparr> sessionId := None \<rparr>, None)
   \<and> handleSend example_reply (example_state\<lparr> sessionId := None \<rparr>) =
        (example_state\<lparr> sessionId := None \<rparr>, None)"
proof -
  let ?a = "example_state\<lparr> input := [] \<rparr>"
  let ?b = "example_state\<lparr> sessionId := None \<rparr>"
  have a: "input ?a = [] \<and> selectedFile ?a = None"
    by (simp add: example_defs)
  have b: "sessionId ?b = None" by simp
  from a have a': "(input ?a = [] \<and> selectedFile ?a = None) \<or> sessionId ?a = None" by (rule disjI1)
  from b have b': "(input ?b = [] \<and> selectedFile ?b = None) \<or> sessionId ?b = None" by (rule disjI2)
  from send_noop[OF a', of example_reply] send_noop[OF b', of example_reply] a b
  show ?thesis by simp
qed

text \<open>
  Claim C7. Each update of the log by a send keeps the log it found as a prefix: the
  user's entry appended before the request, and the reply or the error entry appended
  after it. And once the history load is over, whatever happens afterwards, the log of
  any reached state is a prefix of every later log: nothing is removed, reordered or
  merged.
\<close>

theorem log_append_only:
  "prefix (messages st) (messages (fst (handleSend_start st)))
   \<and> prefix (messages st) (messages (fst (handleSend_resume p st)))
   \<and> (exec r evs (boot stored now rnd) = Some s \<and> appStatus (app s) \<noteq> Loading \<and> exec r evs' s = Some s'
        \<longrightarrow> prefix (messages (app s)) (messages (app s')))"
proof (intro conjI impI)
  show "prefix (messages st) (messages (fst (handleSend_start st)))"
    by (simp add: handleSend_start_def removeFile_def Let_def split: option.splits)
  show "prefix (messages st) (messages (fst (handleSend_resume p st)))"
    by (simp add: resume_messages)
next
  assume a: "exec r evs (boot stored now rnd) = Some s \<and> appStatus (app s) \<noteq> Loading \<and> exec r evs' s = Some s'"
  then have "invar s" using run_invar by blast
  with a show "prefix (messages (app s)) (messages (app s'))" using exec_prefix by blast
qed

text \<open>The example run from the loaded history to the reply.\<close>

theorem log_append_only_witness:
  "exec True [HistoryResponse example_history_empty] (boot None (str ''1'') (str ''a'')) = Some example_ready
   \<and> appStatus (app example_ready) \<noteq> Loading
   \<and> exec True [UI (InputChange (str ''hello'')), UI ClickSend, ChatResponse example_reply]
        example_ready = Some example_answered
   \<and> prefix (messages (app example_ready)) (messages (app example_answered))
   \<and> messages (app example_ready) = [greeting]
   \<and> messages (app example_answered) =
       [greeting,
        \<lparr> sender = str ''user'', text_field = Some (str ''hello''), image = None \<rparr>,
        \<lparr> sender = str ''bot'', text_field = Some (str ''hello''), image = None \<rparr>]"
proof -
  have a: "appStatus (app example_ready) \<noteq> Loading" by (simp add: example_defs eval_defs)
  from example_run(1) a example_run(4)
  have h: "exec True [HistoryResponse example_history_empty] (boot None (str ''1'') (str ''a'')) = Some example_ready
     \<and> appStatus (app example_ready) \<noteq> Loading
     \<and> exec True [UI (InputChange (str ''hello'')), UI ClickSend, ChatResponse example_reply]
          example_ready = Some example_answered"
    by simp
  have "prefix (messages (app example_ready)) (messages (app example_answered))"
    by (rule log_append_only[THEN conjunct2, THEN conjunct2, rule_format, OF h])
  with h example_logs show ?thesis by simp
qed

text \<open>
  Claim C8. A selected file whose type starts with \<open>image/\<close> becomes the pending
  attachment, with its preview, whatever was pending before. Any other selected file is
  reported with an alert and changes no cell of the state, so the pending attachment
  stays as it was. (A change event with no file does nothing.)
\<close>

theorem select_attachment:
  "handleFileChange [] url st = st
   \<and> (startsWith (file_type f) (str ''image/'') \<longrightarrow>
      handleFileChange (f # fs) url st = st\<lparr> selectedFile := Some f, filePreview := Some url \<rparr>)
   \<and> (\<not> startsWith (file_type f) (str ''image/'') \<longrightarrow>
      handleFileChange (f # fs) url st =
        st\<lparr> effects := effects st @ [Alert (str ''Please select an image file.'')] \<rparr>
      \<and> selectedFile (handleFileChange (f # fs) url st) = selectedFile st
      \<and> filePreview (handleFileChange (f # fs) url st) = filePreview st)"
  by (simp add: handleFileChange_def)

text \<open>A PNG picked while a PDF is (hypothetically) pending, and a PDF picked.\<close>

theorem select_attachment_witness:
  "startsWith (file_type example_png) (str ''image/'')
   \<and> handleFileChange [example_png] (str ''blob:1'') (example_state\<lparr> selectedFile := Some example_pdf \<rparr>) =
        example_state\<lparr> selectedFile := Some example_png, filePreview := Some (str ''blob:1'') \<rparr>
   \<and> \<not> startsWith (file_type example_pdf) (str ''image/'')
   \<and> handleFileChange [example_pdf] (str ''blob:2'') example_state =
        example_state\<lparr> effects := [Alert (str ''Please select an image file.'')] \<rparr>
   \<and> selectedFile (handleFileChange [example_pdf] (str ''blob:2'') example_state) = None"
proof -
  have a: "startsWith (file_type example_png) (str ''image/'')"
    by (simp add: example_defs eval_defs)
  have b: "\<not> startsWith (file_type example_pdf) (str ''image/'')"
    by (simp add: example_defs eval_defs)
  have e: "effects example_state = []" "selectedFile example_state = None"
    by (simp_all add: example_defs)
  from select_attachment[of "str ''blob:1''" "example_state\<lparr> selectedFile := Some example_pdf \<rparr>" example_png "[]"] a
  have 1: "handleFileChange [example_png] (str ''blob:1'') (example_state\<lparr> selectedFile := Some example_pdf \<rparr>) =
        example_state\<lparr> selectedFile := Some example_png, filePreview := Some (str ''blob:1'') \<rparr>"
    by simp
  from select_attachment[of "str ''blob:2''" example_state example_pdf "[]"] b e
  have 2: "handleFileChange [example_pdf] (str ''blob:2'') example_state =
        example_state\<lparr> effects := [Alert (str ''Please select an image file.'')] \<rparr>
      \<and> selectedFile (handleFileChange [example_pdf] (str ''blob:2'') example_state) = None"
    by simp
  from a b 1 2 e show ?thesis by simp
qed

text \<open>
  Claim C9. Without speech recognition, \<open>handleVoiceListen\<close> alerts that voice recognition
  is not supported and changes no cell of the state: input text, listening flag, log,
  pending attachment, busy flag and status are as before.
\<close>

theorem toggle_unsupported:
  "handleVoiceListen False st =
     st\<lparr> effects := effects st @ [Alert (str ''Voice recognition is not supported in this browser.'')] \<rparr>"
  by (simp add: handleVoiceListen_def)

text \<open>
  Claim C10, as the code has it. Text that consists of white space only, with no pending
  attachment, makes \<open>handleSend\<close> do nothing, as empty text does. When a send is accepted,
  the text of the user's entry appended to the log is the trimmed input, and the
  \<open>message\<close> field of the request is the trimmed input as \<open>FormData.append\<close> stores it:
  the trimmed input itself when that is well-formed, and otherwise the trimmed input with
  each lone surrogate replaced by U+FFFD.
\<close>

theorem send_trims:
  "((\<forall>c \<in> set (input st). isWhiteSpace c) \<and> selectedFile st = None \<longrightarrow>
       handleSend_start st = (st, None) \<and> handleSend p st = (st, None))
   \<and> (handleSend_start st = (st', Some formData) \<longrightarrow>
       form_message formData = toUSVString (trim (input st)) \<and>
       (isWellFormed (trim (input st)) \<longrightarrow> form_message formData = trim (input st)) \<and>
       messages st' = messages st @
         [\<lparr> sender = str ''user'', text_field = Some (trim (input st)), image = filePreview st \<rparr>])"
proof (intro conjI impI)
  assume a: "(\<forall>c \<in> set (input st). isWhiteSpace c) \<and> selectedFile st = None"
  then have "trim (input st) = []" by (simp add: trim_all_whitespace)
  with a have s: "handleSend_start st = (st, None)" by (simp add: handleSend_start_guard)
  then show "handleSend_start st = (st, None)" .
  from s show "handleSend p st = (st, None)" by (simp add: handleSend_def)
next
  assume a: "handleSend_start st = (st', Some formData)"
  then obtain sid where g: "trim (input st) \<noteq> [] \<or> selectedFile st \<noteq> None" "sessionId st = Some sid" "sid \<noteq> []"
    using handleSend_start_Some by blast
  from handleSend_start_accept[OF g] a
  show m: "form_message formData = toUSVString (trim (input st))" by auto
  from handleSend_start_accept[OF g] a
  show "messages st' = messages st @
         [\<lparr> sender = str ''user'', text_field = Some (trim (input st)), image = filePreview st \<rparr>]"
    by (auto simp add: removeFile_def)
  assume "isWellFormed (trim (input st))"
  with m show "form_message formData = trim (input st)" by (simp add: toUSVString_wellFormed)
qed

text \<open>
  Input of a space, a tab, a line feed and a no-break space; and the send of \<open>" hi "\<close>,
  which posts and logs \<open>hi\<close>.
\<close>

theorem send_trims_witness:
  "list_all isWhiteSpace (input (example_state\<lparr> input := [0x20, 0x09, 0x0A, 0xA0] \<rparr>))
   \<and> selectedFile (example_state\<lparr> input := [0x20, 0x09, 0x0A, 0xA0] \<rparr>) = None
   \<and> handleSend_start (example_state\<lparr> input := [0x20, 0x09, 0x0A, 0xA0] \<rparr>) =
        (example_state\<lparr> input := [0x20, 0x09, 0x0A, 0xA0] \<rparr>, None)
   \<and> handleSend example_reply (example_state\<lparr> input := [0x20, 0x09, 0x0A, 0xA0] \<rparr>) =
        (example_state\<lparr> input := [0x20, 0x09, 0x0A, 0xA0] \<rparr>, None)
   \<and> handleSend_start example_state =
        (example_state\<lparr> isLoading := True,
           messages := [greeting, \<lparr> sender = str ''user'', text_field = Some (str ''hi''), image = None \<rparr>],
           input := [], effects := [ClearFileInput] \<rparr>,
         Some \<lparr> form_sessionId = str ''session_1_a'', form_message = str ''hi'', form_file = None \<rparr>)
   \<and> input example_state = str '' hi ''
   \<and> isWellFormed (trim (input example_state))
   \<and> form_message \<lparr> form_sessionId = str ''session_1_a'', form_message = str ''hi'', form_file = None \<rparr>
        = toUSVString (trim (input example_state))
   \<and> form_message \<lparr> form_sessionId = str ''session_1_a'', form_message = str ''hi'', form_file = None \<rparr>
        = trim (input example_state)"
proof -
  let ?ws = "example_state\<lparr> input := [0x20, 0x09, 0x0A, 0xA0] \<rparr>"
  let ?st' = "example_state\<lparr> isLoading := True,
           messages := [greeting, \<lparr> sender = str ''user'', text_field = Some (str ''hi''), image = None \<rparr>],
           input := [], effects := [ClearFileInput] \<rparr>"
  let ?q = "\<lparr> form_sessionId = str ''session_1_a'', form_message = str ''hi'', form_file = None \<rparr>"
  have a: "list_all isWhiteSpace (input ?ws)" by (simp add: isWhiteSpace_def)
  have b: "selectedFile ?ws = None" by (simp add: example_defs)
  from a b have ab: "(\<forall>c \<in> set (input ?ws). isWhiteSpace c) \<and> selectedFile ?ws = None"
    by (simp add: list_all_iff)
  have c: "handleSend_start example_state = (?st', Some ?q)"
    by (simp add: example_defs eval_defs)
  have d: "input example_state = str '' hi ''" by (simp add: example_defs)
  have w: "isWellFormed (trim (input example_state))" by (simp add: example_defs eval_defs)
  have 1: "handleSend_start ?ws = (?ws, None) \<and> handleSend example_reply ?ws = (?ws, None)"
    by (rule send_trims[of ?ws example_reply, THEN conjunct1, rule_format, OF ab])
  note r = send_trims[of example_state _ ?st' ?q, THEN conjunct2, THEN mp, OF c]
  from r have 2: "form_message ?q = toUSVString (trim (input example_state))"
    by (rule conjunct1)
  from r[THEN conjunct2, THEN conjunct1, THEN mp, OF w]
  have 3: "form_message ?q = trim (input example_state)" .
  from a b 1 c d w 2 3 show ?thesis by simp
qed

text \<open>
  Claim C10 as it is written fails where it speaks of the request. With the input
  that is the single code unit U+D83D, a lone high surrogate, the send is accepted and the
  user's entry carries the trimmed input, but the \<open>message\<close> field of the request is the
  single code unit U+FFFD.
\<close>

theorem send_trims_raw_request_counterexample:
  "trim (input (example_state\<lparr> input := [0xD83D] \<rparr>)) = [0xD83D]
   \<and> map_option form_message (snd (handleSend_start (example_state\<lparr> input := [0xD83D] \<rparr>))) =
       Some [0xFFFD]
   \<and> map_option form_message (snd (handleSend_start (example_state\<lparr> input := [0xD83D] \<rparr>))) \<noteq>
       Some (trim (input (example_state\<lparr> input := [0xD83D] \<rparr>)))
   \<and> messages (fst (handleSend_start (example_state\<lparr> input := [0xD83D] \<rparr>))) =
       [greeting, \<lparr> sender = str ''user'', text_field = Some [0xD83D], image = None \<rparr>]"
  by (simp add: example_defs eval_defs)

end
